theory Spec2Isabelle
  imports Complex_Main
begin

section \<open>Python values and exceptions\<close>

text \<open>
  The values \<open>json.loads\<close> can return: \<open>None\<close>, a bool, an int (unbounded), a float,
  a string, a list or a dict with string keys. A float is a finite rational (every finite
  double is one), an infinity or NaN, which \<open>json.loads\<close> accepts as \<open>Infinity\<close>,
  \<open>-Infinity\<close> and \<open>NaN\<close>. A dict is an association list read by its first binding.
\<close>

datatype pyfloat = Finite rat | PosInf | NegInf | NaN

datatype pyval =
    PNone
  | PBool bool
  | PInt int
  | PFloat pyfloat
  | PStr string
  | PList "pyval list"
  | PDict "(string \<times> pyval) list"

text \<open>The exceptions the modelled code can meet. \<open>Full\<close> is gevent's \<open>queue.Full\<close>.\<close>

datatype exn =
    ValueError
  | TypeError
  | KeyError
  | IndexError
  | OverflowError
  | Full
  | LcApiException string
  | RequestException string

text \<open>
  The two library functions whose behaviour on text is not part of this repository are
  taken as parameters: \<open>json.loads\<close> on a line (\<open>None\<close> when it raises \<open>ValueError\<close>)
  and the builtin \<open>int\<close> on a string (\<open>None\<close> when it raises \<open>ValueError\<close>).
\<close>

record pylib =
  json_loads :: "string \<Rightarrow> pyval option"
  int_of_str :: "string \<Rightarrow> int option"

text \<open>The builtin \<open>int(v)\<close>: a float is truncated towards zero.\<close>

fun py_int :: "pylib \<Rightarrow> pyval \<Rightarrow> exn + int" where
  "py_int L (PInt i) = Inr i"
| "py_int L (PBool b) = Inr (if b then 1 else 0)"
| "py_int L (PFloat (Finite r)) = Inr (if 0 \<le> r then \<lfloor>r\<rfloor> else \<lceil>r\<rceil>)"
| "py_int L (PFloat NaN) = Inl ValueError"
| "py_int L (PFloat PosInf) = Inl OverflowError"
| "py_int L (PFloat NegInf) = Inl OverflowError"
| "py_int L (PStr s) = (case int_of_str L s of None \<Rightarrow> Inl ValueError | Some i \<Rightarrow> Inr i)"
| "py_int L PNone = Inl TypeError"
| "py_int L (PList xs) = Inl TypeError"
| "py_int L (PDict kvs) = Inl TypeError"

fun startswith :: "string \<Rightarrow> string \<Rightarrow> bool" where
  "startswith s [] = True"
| "startswith [] (p # ps) = False"
| "startswith (c # cs) (p # ps) = (c = p \<and> startswith cs ps)"

fun has_substr :: "string \<Rightarrow> string \<Rightarrow> bool" where
  "has_substr p [] = (p = [])"
| "has_substr p (c # cs) = (startswith (c # cs) p \<or> has_substr p cs)"

text \<open>
  \<open>k in v\<close> for a string \<open>k\<close>: key membership in a dict, element membership in a list,
  substring test in a string, \<open>TypeError\<close> on a value that is not iterable.
\<close>

fun py_in :: "string \<Rightarrow> pyval \<Rightarrow> exn + bool" where
  "py_in k (PDict kvs) = Inr (map_of kvs k \<noteq> None)"
| "py_in k (PList xs) = Inr (List.member xs (PStr k))"
| "py_in k (PStr s) = Inr (has_substr k s)"
| "py_in k PNone = Inl TypeError"
| "py_in k (PBool b) = Inl TypeError"
| "py_in k (PInt i) = Inl TypeError"
| "py_in k (PFloat f) = Inl TypeError"

text \<open>\<open>v[k]\<close> for a string \<open>k\<close>: only a dict can be indexed by a string.\<close>

fun py_getitem :: "pyval \<Rightarrow> string \<Rightarrow> exn + pyval" where
  "py_getitem (PDict kvs) k = (case map_of kvs k of None \<Rightarrow> Inl KeyError | Some v \<Rightarrow> Inr v)"
| "py_getitem (PList xs) k = Inl TypeError"
| "py_getitem (PStr s) k = Inl TypeError"
| "py_getitem PNone k = Inl TypeError"
| "py_getitem (PBool b) k = Inl TypeError"
| "py_getitem (PInt i) k = Inl TypeError"
| "py_getitem (PFloat f) k = Inl TypeError"

section \<open>The bounded queue\<close>

text \<open>
  Modelled from the spec: \<open>gevent.queue.Queue\<close> is a library class outside the
  repository. Section 4.3 gives its contract: a FIFO buffer whose \<open>put\<close> fails at once
  when the queue is at capacity. As gevent documents, a \<open>maxsize\<close> that is \<open>None\<close>, zero
  or negative makes the queue unbounded.
\<close>

record 'a pyqueue =
  maxsize :: "int option"
  items :: "'a list"

definition Queue :: "int option \<Rightarrow> 'a pyqueue" where
  "Queue m =
     \<lparr>maxsize = (case m of None \<Rightarrow> None | Some n \<Rightarrow> if n \<le> 0 then None else Some n),
      items = []\<rparr>"

definition qsize :: "'a pyqueue \<Rightarrow> int" where
  "qsize q = int (length (items q))"

definition put_nowait :: "'a pyqueue \<Rightarrow> 'a \<Rightarrow> exn + 'a pyqueue" where
  "put_nowait q x =
     (case maxsize q of
        None \<Rightarrow> Inr (q\<lparr>items := items q @ [x]\<rparr>)
      | Some m \<Rightarrow> if qsize q < m then Inr (q\<lparr>items := items q @ [x]\<rparr>) else Inl Full)"

text \<open>\<open>get\<close> on an empty queue blocks the consumer: it has no result (\<open>None\<close>).\<close>

definition get :: "'a pyqueue \<Rightarrow> ('a \<times> 'a pyqueue) option" where
  "get q = (case items q of [] \<Rightarrow> None | x # xs \<Rightarrow> Some (x, q\<lparr>items := xs\<rparr>))"

section \<open>The Spout object\<close>

text \<open>
  A queued message is the raw line (parsing disabled) or the decoded value. A response is
  read through the two things the code uses of it: the \<open>Location\<close> header of each
  redirect response in its history, oldest first (\<open>None\<close> when the header is absent),
  and whether it was closed.
\<close>

datatype msg = Raw string | Parsed pyval

record response =
  history :: "string option list"
  closed :: bool

record manager =
  oid :: string
  secret_api_key :: string

record spout =
  man :: manager
  data_type :: string
  cat :: "string option"
  tag :: "string option"
  invId :: "string option"
  is_parse :: bool
  max_buffer :: "int option"
  dropped :: int
  isStop :: bool
  queue :: "msg pyqueue"
  hConn :: response
  finalSpoutUrl :: string

text \<open>
  The world outside the object: the HTTP requests issued so far, in order, and the number
  of background tasks spawned.
\<close>

datatype http_method = POST | GET

record request =
  verb :: http_method
  url :: string
  data :: "(string \<times> string) list"
  stream :: bool
  allow_redirects :: bool
  timeout :: int

record world =
  sent :: "request list"
  spawned :: nat

definition CLOUD_KEEP_ALIVES :: int where
  "CLOUD_KEEP_ALIVES = 60"

definition TIMEOUT_SEC :: int where
  "TIMEOUT_SEC = (CLOUD_KEEP_ALIVES * 2) + 1"

subsection \<open>Construction\<close>

definition spoutParams :: "string \<Rightarrow> string \<Rightarrow> string option \<Rightarrow> string option \<Rightarrow> string option
    \<Rightarrow> (string \<times> string) list" where
  "spoutParams apiKey dt inv_id tg ct =
     [(''api_key'', apiKey), (''type'', dt)]
     @ (case inv_id of None \<Rightarrow> [] | Some i \<Rightarrow> [(''inv_id'', i)])
     @ (case tg of None \<Rightarrow> [] | Some t \<Rightarrow> [(''tag'', t)])
     @ (case ct of None \<Rightarrow> [] | Some c \<Rightarrow> [(''cat'', c)])"

definition post_request :: "manager \<Rightarrow> string \<Rightarrow> string option \<Rightarrow> string option \<Rightarrow> string option
    \<Rightarrow> request" where
  "post_request m dt inv_id tg ct =
     \<lparr>verb = POST,
      url = ''https://output.limacharlie.io/output/'' @ oid m,
      data = spoutParams (secret_api_key m) dt inv_id tg ct,
      stream = True, allow_redirects = True, timeout = TIMEOUT_SEC\<rparr>"

text \<open>
  \<open>Spout.__init__\<close>. The last argument is what the registration POST does: it raises or
  returns a response. The result is the exception that leaves the constructor or the
  object, with the world after the call.
\<close>

definition init :: "world \<Rightarrow> manager \<Rightarrow> string \<Rightarrow> bool \<Rightarrow> int option \<Rightarrow> string option
    \<Rightarrow> string option \<Rightarrow> string option \<Rightarrow> exn + response \<Rightarrow> (exn + spout) \<times> world" where
  "init w m dt parse maxbuf inv_id tg ct post_result =
     (if dt \<notin> set [''event'', ''detect'', ''audit'']
      then (Inl (LcApiException (''Invalid data type: '' @ dt)), w)
      else
        let w1 = w\<lparr>sent := sent w @ [post_request m dt inv_id tg ct]\<rparr> in
        case post_result of
          Inl e \<Rightarrow> (Inl e, w1)
        | Inr r \<Rightarrow>
            (case history r of
               [] \<Rightarrow> (Inl IndexError, w1)
             | None # _ \<Rightarrow> (Inl KeyError, w1)
             | Some loc # _ \<Rightarrow>
                 (Inr \<lparr>man = m, data_type = dt, cat = ct, tag = tg, invId = inv_id,
                       is_parse = parse, max_buffer = maxbuf, dropped = 0, isStop = False,
                       queue = Queue maxbuf, hConn = r, finalSpoutUrl = loc\<rparr>,
                  w1\<lparr>spawned := spawned w1 + 1\<rparr>)))"

subsection \<open>The control surface\<close>

definition shutdown :: "spout \<Rightarrow> spout" where
  "shutdown s = s\<lparr>isStop := True, hConn := (hConn s)\<lparr>closed := True\<rparr>\<rparr>"

definition getDropped :: "spout \<Rightarrow> int" where
  "getDropped s = dropped s"

definition resetDroppedCounter :: "spout \<Rightarrow> spout" where
  "resetDroppedCounter s = s\<lparr>dropped := 0\<rparr>"

subsection \<open>Processing one line\<close>

text \<open>
  The body of the inner \<open>try\<close> of \<open>_handleConnection\<close>: the exception it raises, or the
  object after the line.
\<close>

definition enqueue :: "spout \<Rightarrow> msg \<Rightarrow> exn + spout" where
  "enqueue s x = (case put_nowait (queue s) x of Inl e \<Rightarrow> Inl e | Inr q \<Rightarrow> Inr (s\<lparr>queue := q\<rparr>))"

definition process_line :: "pylib \<Rightarrow> spout \<Rightarrow> string \<Rightarrow> exn + spout" where
  "process_line L s line =
     (if is_parse s then
        (case json_loads L line of
           None \<Rightarrow> Inl ValueError
         | Some v \<Rightarrow>
             (case py_in ''__trace'' v of
                Inl e \<Rightarrow> Inl e
              | Inr True \<Rightarrow>
                  (case py_getitem v ''__trace'' of
                     Inl e \<Rightarrow> Inl e
                   | Inr t \<Rightarrow>
                       if PStr ''dropped'' = t then
                         (case py_getitem v ''n'' of
                            Inl e \<Rightarrow> Inl e
                          | Inr n \<Rightarrow>
                              (case py_int L n of
                                 Inl e \<Rightarrow> Inl e
                               | Inr k \<Rightarrow> Inr (s\<lparr>dropped := dropped s + k\<rparr>)))
                       else Inr s)
              | Inr False \<Rightarrow> enqueue s (Parsed v)))
      else enqueue s (Raw line))"

text \<open>The inner \<open>try\<close> with its bare \<open>except\<close>: any exception counts one drop.\<close>

definition handle_line :: "pylib \<Rightarrow> spout \<Rightarrow> string \<Rightarrow> spout" where
  "handle_line L s line =
     (case process_line L s line of Inl e \<Rightarrow> s\<lparr>dropped := dropped s + 1\<rparr> | Inr s' \<Rightarrow> s')"

text \<open>The \<open>for\<close> loop over the lines one connection delivers.\<close>

fun handle_lines :: "pylib \<Rightarrow> spout \<Rightarrow> string list \<Rightarrow> spout" where
  "handle_lines L s [] = s"
| "handle_lines L s (line # rest) = handle_lines L (handle_line L s line) rest"

text \<open>
  What a line puts into the queue when there is room: the raw line when parsing is
  disabled, the decoded value when it decodes and the test \<open>'__trace' in line\<close> is
  false. No other line reaches \<open>put_nowait\<close>.
\<close>

definition deliverable :: "pylib \<Rightarrow> spout \<Rightarrow> string \<Rightarrow> msg option" where
  "deliverable L s line =
     (if is_parse s then
        (case json_loads L line of
           None \<Rightarrow> None
         | Some v \<Rightarrow> if py_in ''__trace'' v = Inr False then Some (Parsed v) else None)
      else Some (Raw line))"

subsection \<open>The reader loop\<close>

text \<open>
  \<open>_handleConnection\<close> runs as a background task beside the owner of the object, and
  control changes hands only where the task waits for the network. The task is modelled
  by the place where it waits:
  \<^item> \<open>Spawned\<close>: created by \<open>gevent.spawn\<close>, before the first test of the \<open>while\<close>;
  \<^item> \<open>Streaming\<close>: inside \<open>for line in self._hConn.iter_lines(...)\<close>;
  \<^item> \<open>Reconnecting\<close>: inside \<open>requests.get\<close>;
  \<^item> \<open>Finished\<close>: the \<open>while\<close> has ended and the function has returned;
  \<^item> \<open>Died e\<close>: the exception \<open>e\<close> of \<open>requests.get\<close>, which no \<open>try\<close> encloses,
    has left the function.
  Calls of \<open>_printDebug\<close> only print and are left out.
\<close>

datatype pc = Spawned | Streaming | Reconnecting | Finished | Died exn

record system =
  self :: spout
  outside :: world
  reader :: pc

datatype event =
    Run
  | Line string
  | StreamEnd
  | GetReturns response
  | GetRaises exn
  | CallShutdown
  | CallReset
  | CallGet

definition get_request :: "string \<Rightarrow> request" where
  "get_request u =
     \<lparr>verb = GET, url = u, data = [], stream = True, allow_redirects = False,
      timeout = TIMEOUT_SEC\<rparr>"

text \<open>The test \<open>while not self._isStop\<close>: enter the \<open>for\<close> loop or return.\<close>

definition loop_head :: "system \<Rightarrow> system" where
  "loop_head S = (if \<not> isStop (self S) then S\<lparr>reader := Streaming\<rparr> else S\<lparr>reader := Finished\<rparr>)"

text \<open>
  After the \<open>for\<close> loop has ended or raised: \<open>if not self._isStop\<close> issues the GET;
  otherwise the \<open>while\<close> test follows at once.
\<close>

definition after_stream :: "system \<Rightarrow> system" where
  "after_stream S =
     (if \<not> isStop (self S)
      then S\<lparr>outside := (outside S)\<lparr>sent := sent (outside S) @ [get_request (finalSpoutUrl (self S))]\<rparr>,
             reader := Reconnecting\<rparr>
      else loop_head S)"

text \<open>
  One step of the system: \<open>Run\<close> starts the task; \<open>Line\<close> and \<open>StreamEnd\<close> are what
  \<open>iter_lines\<close> does next (a line, or the end of the connection by exhaustion or by an
  exception); \<open>GetReturns\<close> and \<open>GetRaises\<close> end \<open>requests.get\<close>; the \<open>Call\<close> events
  are the owner's calls of \<open>shutdown\<close>, \<open>resetDroppedCounter\<close> and \<open>queue.get\<close>. An
  event that cannot happen in a state gives \<open>None\<close>.
\<close>

fun step :: "pylib \<Rightarrow> system \<Rightarrow> event \<Rightarrow> system option" where
  "step L S Run = (if reader S = Spawned then Some (loop_head S) else None)"
| "step L S (Line l) =
     (if reader S = Streaming then Some (S\<lparr>self := handle_line L (self S) l\<rparr>) else None)"
| "step L S StreamEnd = (if reader S = Streaming then Some (after_stream S) else None)"
| "step L S (GetReturns r) =
     (if reader S = Reconnecting then Some (loop_head (S\<lparr>self := (self S)\<lparr>hConn := r\<rparr>\<rparr>))
      else None)"
| "step L S (GetRaises e) = (if reader S = Reconnecting then Some (S\<lparr>reader := Died e\<rparr>) else None)"
| "step L S CallShutdown = Some (S\<lparr>self := shutdown (self S)\<rparr>)"
| "step L S CallReset = Some (S\<lparr>self := resetDroppedCounter (self S)\<rparr>)"
| "step L S CallGet =
     (case get (queue (self S)) of
        None \<Rightarrow> None
      | Some (x, q) \<Rightarrow> Some (S\<lparr>self := (self S)\<lparr>queue := q\<rparr>\<rparr>))"

fun run :: "pylib \<Rightarrow> system \<Rightarrow> event list \<Rightarrow> system option" where
  "run L S [] = Some S"
| "run L S (e # es) = (case step L S e of None \<Rightarrow> None | Some S' \<Rightarrow> run L S' es)"

text \<open>The system right after a successful construction.\<close>

definition started :: "spout \<Rightarrow> world \<Rightarrow> system" where
  "started s w = \<lparr>self = s, outside = w, reader = Spawned\<rparr>"

subsection \<open>Sample data\<close>

text \<open>
  A few lines of a stream with the values \<open>json.loads\<close> returns for them, and the
  builtin \<open>int\<close> on two strings, for concrete runs.
\<close>

definition line_five :: string where
  "line_five = ''5''"

definition line_garbage :: string where
  "line_garbage = ''{not json''"

definition line_event :: string where
  \<open>line_event = ''{"routing": {"event_type": "NEW_PROCESS"}}''\<close>

definition line_event2 :: string where
  \<open>line_event2 = ''{"routing": {"event_type": "DNS_REQUEST"}}''\<close>

definition line_dropped5 :: string where
  \<open>line_dropped5 = ''{"__trace": "dropped", "n": 5}''\<close>

definition line_dropped_neg :: string where
  \<open>line_dropped_neg = ''{"__trace": "dropped", "n": -5}''\<close>

definition line_dropped_nokey :: string where
  \<open>line_dropped_nokey = ''{"__trace": "dropped"}''\<close>

definition line_dropped_null :: string where
  \<open>line_dropped_null = ''{"__trace": "dropped", "n": null}''\<close>

definition val_event :: pyval where
  "val_event = PDict [(''routing'', PDict [(''event_type'', PStr ''NEW_PROCESS'')])]"

definition val_event2 :: pyval where
  "val_event2 = PDict [(''routing'', PDict [(''event_type'', PStr ''DNS_REQUEST'')])]"

definition sample_loads :: "string \<Rightarrow> pyval option" where
  "sample_loads l =
     map_of
       [(line_five, PInt 5),
        (line_event, val_event),
        (line_event2, val_event2),
        (line_dropped5, PDict [(''__trace'', PStr ''dropped''), (''n'', PInt 5)]),
        (line_dropped_neg, PDict [(''__trace'', PStr ''dropped''), (''n'', PInt (- 5))]),
        (line_dropped_nokey, PDict [(''__trace'', PStr ''dropped'')]),
        (line_dropped_null, PDict [(''__trace'', PStr ''dropped''), (''n'', PNone)])]
       l"

definition sample_int :: "string \<Rightarrow> int option" where
  "sample_int s = map_of [(''5'', 5), (''-5'', - 5)] s"

definition sample_lib :: pylib where
  "sample_lib = \<lparr>json_loads = sample_loads, int_of_str = sample_int\<rparr>"

definition sample_man :: manager where
  "sample_man = \<lparr>oid = ''c7e8f940-1111-4222-8333-444455556666'', secret_api_key = ''k''\<rparr>"

definition sample_url :: string where
  "sample_url = ''https://output.limacharlie.io/output/stream/3f2a''"

definition sample_response :: response where
  "sample_response = \<lparr>history = [Some sample_url], closed = False\<rparr>"

definition world0 :: world where
  "world0 = \<lparr>sent = [], spawned = 0\<rparr>"

text \<open>The object a successful construction returns for these data, with buffer size \<open>n\<close>.\<close>

definition sample_spout :: "int \<Rightarrow> spout" where
  "sample_spout n =
     \<lparr>man = sample_man, data_type = ''event'', cat = None, tag = None, invId = None,
      is_parse = True, max_buffer = Some n, dropped = 0, isStop = False,
      queue = Queue (Some n), hConn = sample_response, finalSpoutUrl = sample_url\<rparr>"

subsection \<open>Auxiliary notions\<close>

text \<open>Whether \<open>put_nowait\<close> would succeed.\<close>

definition room :: "'a pyqueue \<Rightarrow> bool" where
  "room q = (case maxsize q of None \<Rightarrow> True | Some m \<Rightarrow> qsize q < m)"

text \<open>
  The number a line adds to the counter through line 108 of the source: the line decodes
  to a dict whose \<open>__trace\<close> is \<open>dropped\<close> and whose \<open>n\<close> converts to that integer.
\<close>

definition reported_drops :: "pylib \<Rightarrow> string \<Rightarrow> int option" where
  "reported_drops L line =
     (case json_loads L line of
        None \<Rightarrow> None
      | Some v \<Rightarrow>
          (case py_getitem v ''__trace'' of
             Inl e \<Rightarrow> None
           | Inr t \<Rightarrow>
               if PStr ''dropped'' = t then
                 (case py_getitem v ''n'' of
                    Inl e \<Rightarrow> None
                  | Inr n \<Rightarrow> (case py_int L n of Inl e \<Rightarrow> None | Inr k \<Rightarrow> Some k))
               else None))"

text \<open>\<open>n\<close> successive calls of \<open>get\<close> by the consumer.\<close>

fun get_many :: "nat \<Rightarrow> 'a pyqueue \<Rightarrow> ('a list \<times> 'a pyqueue) option" where
  "get_many 0 q = Some ([], q)"
| "get_many (Suc n) q =
     (case get q of
        None \<Rightarrow> None
      | Some (x, q') \<Rightarrow>
          (case get_many n q' of None \<Rightarrow> None | Some (xs, q'') \<Rightarrow> Some (x # xs, q'')))"

text \<open>The POST requests among the requests issued.\<close>

definition posts :: "request list \<Rightarrow> request list" where
  "posts rs = filter (\<lambda>q. verb q = POST) rs"

text \<open>A queue of capacity one that is full.\<close>

definition full_spout :: spout where
  "full_spout = (sample_spout 1)\<lparr>queue := (Queue (Some 1))\<lparr>items := [Parsed val_event]\<rparr>\<rparr>"

text \<open>A running system: the object right after construction, its task reading the stream.\<close>

definition sample_system :: "int \<Rightarrow> system" where
  "sample_system n =
     \<lparr>self = sample_spout n,
      outside = \<lparr>sent = [post_request sample_man ''event'' None None None], spawned = 1\<rparr>,
      reader = Streaming\<rparr>"

section \<open>Basic facts\<close>

lemmas sample_lines =
  line_five_def line_garbage_def line_event_def line_event2_def line_dropped5_def
  line_dropped_neg_def line_dropped_nokey_def line_dropped_null_def

lemma loads_five: "json_loads sample_lib line_five = Some (PInt 5)"
  by (simp add: sample_lib_def sample_loads_def sample_lines)

lemma loads_garbage: "json_loads sample_lib line_garbage = None"
  by (simp add: sample_lib_def sample_loads_def sample_lines)

lemma loads_event: "json_loads sample_lib line_event = Some val_event"
  by (simp add: sample_lib_def sample_loads_def sample_lines)

lemma loads_event2: "json_loads sample_lib line_event2 = Some val_event2"
  by (simp add: sample_lib_def sample_loads_def sample_lines)

lemma loads_dropped5:
  "json_loads sample_lib line_dropped5 = Some (PDict [(''__trace'', PStr ''dropped''), (''n'', PInt 5)])"
  by (simp add: sample_lib_def sample_loads_def sample_lines)

lemma loads_dropped_neg:
  "json_loads sample_lib line_dropped_neg
     = Some (PDict [(''__trace'', PStr ''dropped''), (''n'', PInt (- 5))])"
  by (simp add: sample_lib_def sample_loads_def sample_lines)

lemma loads_dropped_nokey:
  "json_loads sample_lib line_dropped_nokey = Some (PDict [(''__trace'', PStr ''dropped'')])"
  by (simp add: sample_lib_def sample_loads_def sample_lines)

lemma loads_dropped_null:
  "json_loads sample_lib line_dropped_null
     = Some (PDict [(''__trace'', PStr ''dropped''), (''n'', PNone)])"
  by (simp add: sample_lib_def sample_loads_def sample_lines)

lemmas sample_loads_simps =
  loads_five loads_garbage loads_event loads_event2 loads_dropped5 loads_dropped_neg
  loads_dropped_nokey loads_dropped_null

lemma enqueue_full:
  assumes "maxsize (queue s) = Some m" and "m \<le> qsize (queue s)"
  shows "enqueue s x = Inl Full"
  using assms by (simp add: enqueue_def put_nowait_def)

lemma enqueue_room:
  assumes "room (queue s)"
  shows "enqueue s x = Inr (s\<lparr>queue := (queue s)\<lparr>items := items (queue s) @ [x]\<rparr>\<rparr>)"
  using assms by (simp add: enqueue_def put_nowait_def room_def split: option.splits)

lemma process_line_deliverable:
  assumes "deliverable L s line = Some x"
  shows "process_line L s line = enqueue s x"
  using assms
  by (auto simp: deliverable_def process_line_def split: if_splits option.splits)

lemma handle_line_exception:
  assumes "process_line L s line = Inl e"
  shows "handle_line L s line = s\<lparr>dropped := dropped s + 1\<rparr>"
  using assms by (simp add: handle_line_def)

lemma handle_line_delivers:
  assumes "deliverable L s line = Some x" and "room (queue s)"
  shows "handle_line L s line = s\<lparr>queue := (queue s)\<lparr>items := items (queue s) @ [x]\<rparr>\<rparr>"
  using process_line_deliverable [OF assms(1)] enqueue_room [OF assms(2)]
  by (simp add: handle_line_def)

lemma deliverable_cong:
  assumes "is_parse s' = is_parse s"
  shows "deliverable L s' line = deliverable L s line"
  using assms by (simp add: deliverable_def)

lemma process_line_malformed:
  assumes "is_parse s" and "json_loads L line = None"
  shows "process_line L s line = Inl ValueError"
  using assms by (simp add: process_line_def)

lemma process_line_trace_dict:
  assumes "is_parse s" and "json_loads L line = Some (PDict kvs)"
    and "map_of kvs ''__trace'' = Some (PStr ''dropped'')"
  shows "process_line L s line =
     (case py_getitem (PDict kvs) ''n'' of
        Inl e \<Rightarrow> Inl e
      | Inr n \<Rightarrow> (case py_int L n of Inl e \<Rightarrow> Inl e | Inr k \<Rightarrow> Inr (s\<lparr>dropped := dropped s + k\<rparr>)))"
  using assms by (simp add: process_line_def)

lemma step_line_exception:
  assumes "reader S = Streaming" and "process_line L (self S) line = Inl e"
  shows "step L S (Line line) = Some (S\<lparr>self := (self S)\<lparr>dropped := dropped (self S) + 1\<rparr>\<rparr>)"
  using assms by (simp add: handle_line_exception)

lemma deliverable_event:
  "is_parse s \<Longrightarrow> deliverable sample_lib s line_event = Some (Parsed val_event)"
  by (simp add: deliverable_def loads_event val_event_def)

lemma deliverable_event2:
  "is_parse s \<Longrightarrow> deliverable sample_lib s line_event2 = Some (Parsed val_event2)"
  by (simp add: deliverable_def loads_event2 val_event2_def)

lemma sample_spout_simps:
  "is_parse (sample_spout n)" "dropped (sample_spout n) = 0" "\<not> isStop (sample_spout n)"
  "items (queue (sample_spout n)) = []" "max_buffer (sample_spout n) = Some n"
  "finalSpoutUrl (sample_spout n) = sample_url"
  by (simp_all add: sample_spout_def Queue_def)

lemma sample_spout_queue: "queue (sample_spout n) = Queue (max_buffer (sample_spout n))"
  by (simp add: sample_spout_def)

lemma sample_spout_room: "0 < n \<Longrightarrow> room (queue (sample_spout n))"
  by (simp add: sample_spout_def Queue_def room_def qsize_def)

lemma sample_system_simps:
  "reader (sample_system n) = Streaming" "self (sample_system n) = sample_spout n"
  "sent (outside (sample_system n)) = [post_request sample_man ''event'' None None None]"
  by (simp_all add: sample_system_def)

section \<open>The claims\<close>

subsection \<open>Backpressure\<close>

text \<open>
  C1. When the bounded queue already holds \<open>max_buffer\<close> items, a line that would be
  delivered is not: the attempt to enqueue it fails at once with \<open>Full\<close> instead of
  waiting, the drop counter grows by exactly one and the queue keeps its contents (as
  does every other field of the object). A queue is bounded when \<open>max_buffer\<close> is
  positive.
\<close>

theorem full_queue_drop:
  assumes "max_buffer s = Some m" and "0 < m"
    and "queue s = (Queue (max_buffer s))\<lparr>items := xs\<rparr>"
    and "int (length xs) = m"
    and "deliverable L s line = Some x"
  shows "process_line L s line = Inl Full
    \<and> handle_line L s line = s\<lparr>dropped := dropped s + 1\<rparr>
    \<and> dropped (handle_line L s line) = dropped s + 1
    \<and> queue (handle_line L s line) = queue s"
proof -
  have "maxsize (queue s) = Some m" using assms(1-3) by (simp add: Queue_def)
  moreover have "m \<le> qsize (queue s)" using assms(3,4) by (simp add: qsize_def)
  ultimately have "enqueue s x = Inl Full" by (rule enqueue_full)
  then have "process_line L s line = Inl Full"
    using process_line_deliverable [OF assms(5)] by simp
  then show ?thesis by (simp add: handle_line_def)
qed

theorem full_queue_drop_witness:
  "max_buffer full_spout = Some 1
   \<and> items (queue full_spout) = [Parsed val_event]
   \<and> deliverable sample_lib full_spout line_event2 = Some (Parsed val_event2)
   \<and> process_line sample_lib full_spout line_event2 = Inl Full
   \<and> dropped (handle_line sample_lib full_spout line_event2) = 1
   \<and> items (queue (handle_line sample_lib full_spout line_event2)) = [Parsed val_event]"
proof -
  have a: "max_buffer full_spout = Some 1" by (simp add: full_spout_def sample_spout_def)
  have b: "queue full_spout = (Queue (max_buffer full_spout))\<lparr>items := [Parsed val_event]\<rparr>"
    by (simp add: full_spout_def sample_spout_def)
  have c: "int (length [Parsed val_event]) = 1" by simp
  have d: "deliverable sample_lib full_spout line_event2 = Some (Parsed val_event2)"
    by (rule deliverable_event2) (simp add: full_spout_def sample_spout_def)
  have e: "dropped full_spout = 0" "items (queue full_spout) = [Parsed val_event]"
    by (simp_all add: full_spout_def sample_spout_def)
  show ?thesis
    using full_queue_drop [OF a _ b c d] a d e by simp
qed

subsection \<open>Trace messages\<close>

text \<open>
  C2. With parsing enabled, a line that decodes to a dict whose \<open>__trace\<close> is
  \<open>dropped\<close> and whose \<open>n\<close> is the integer \<open>n\<close> adds exactly \<open>n\<close> to the drop counter
  and is never put into the queue.
\<close>

theorem trace_dropped_adds_n:
  assumes "is_parse s" and "json_loads L line = Some (PDict kvs)"
    and "map_of kvs ''__trace'' = Some (PStr ''dropped'')"
    and "map_of kvs ''n'' = Some (PInt n)"
  shows "handle_line L s line = s\<lparr>dropped := dropped s + n\<rparr>
    \<and> dropped (handle_line L s line) = dropped s + n
    \<and> queue (handle_line L s line) = queue s
    \<and> deliverable L s line = None"
proof -
  have "process_line L s line = Inr (s\<lparr>dropped := dropped s + n\<rparr>)"
    using process_line_trace_dict [OF assms(1-3)] assms(4) by simp
  moreover have "deliverable L s line = None"
    using assms(1-3) by (simp add: deliverable_def)
  ultimately show ?thesis by (simp add: handle_line_def)
qed

theorem trace_dropped_adds_n_witness:
  "is_parse (sample_spout 4)
   \<and> json_loads sample_lib line_dropped5
       = Some (PDict [(''__trace'', PStr ''dropped''), (''n'', PInt 5)])
   \<and> dropped (handle_line sample_lib (sample_spout 4) line_dropped5) = 5
   \<and> items (queue (handle_line sample_lib (sample_spout 4) line_dropped5)) = []"
proof -
  have a: "is_parse (sample_spout 4)" by (simp add: sample_spout_def)
  have b: "map_of [(''__trace'', PStr ''dropped''), (''n'', PInt 5)] ''__trace''
      = Some (PStr ''dropped'')"
    by simp
  have c: "map_of [(''__trace'', PStr ''dropped''), (''n'', PInt 5)] ''n'' = Some (PInt 5)"
    by simp
  have d: "dropped (sample_spout 4) = 0" "items (queue (sample_spout 4)) = []"
    by (simp_all add: sample_spout_def Queue_def)
  show ?thesis
    using trace_dropped_adds_n [OF a loads_dropped5 b c] a d loads_dropped5 by simp
qed

subsection \<open>Errors of one line\<close>

text \<open>
  C3. While the task reads a stream, a line that fails to decode with parsing enabled, and
  more generally a line whose processing raises any exception, adds exactly one to the drop
  counter, leaves the queue as it was and leaves the task in the \<open>for\<close> loop: the
  lines and events that follow are processed from the same state with one more drop, and a
  following line that is deliverable, the queue having room, is appended to the queue.
\<close>

theorem malformed_line_contained:
  assumes "reader S = Streaming"
    and "(is_parse (self S) \<and> json_loads L line = None) \<or> process_line L (self S) line = Inl e"
  shows "step L S (Line line) = Some (S\<lparr>self := (self S)\<lparr>dropped := dropped (self S) + 1\<rparr>\<rparr>)
    \<and> run L S (Line line # es) = run L (S\<lparr>self := (self S)\<lparr>dropped := dropped (self S) + 1\<rparr>\<rparr>) es
    \<and> handle_lines L (self S) (line # rest)
        = handle_lines L ((self S)\<lparr>dropped := dropped (self S) + 1\<rparr>) rest
    \<and> queue (handle_line L (self S) line) = queue (self S)
    \<and> (\<forall>good x. deliverable L (self S) good = Some x \<and> room (queue (self S)) \<longrightarrow>
          items (queue (handle_lines L (self S) [line, good])) = items (queue (self S)) @ [x])"
proof -
  let ?s' = "(self S)\<lparr>dropped := dropped (self S) + 1\<rparr>"
  from assms(2) obtain e' where raised: "process_line L (self S) line = Inl e'"
    using process_line_malformed by blast
  have one: "handle_line L (self S) line = ?s'"
    using raised by (rule handle_line_exception)
  have st: "step L S (Line line) = Some (S\<lparr>self := ?s'\<rparr>)"
    using assms(1) raised by (rule step_line_exception)
  have later: "items (queue (handle_lines L (self S) [line, good])) = items (queue (self S)) @ [x]"
    if "deliverable L (self S) good = Some x" and "room (queue (self S))" for good x
  proof -
    have "deliverable L ?s' good = Some x"
      using that(1) deliverable_cong [of ?s' "self S" L good] by simp
    moreover have "room (queue ?s')" using that(2) by simp
    ultimately have "handle_line L ?s' good = ?s'\<lparr>queue := (queue ?s')\<lparr>items := items (queue ?s') @ [x]\<rparr>\<rparr>"
      by (rule handle_line_delivers)
    then show ?thesis using one by simp
  qed
  show ?thesis using one st later by simp
qed

theorem malformed_line_contained_witness:
  "reader (sample_system 4) = Streaming
   \<and> is_parse (self (sample_system 4))
   \<and> json_loads sample_lib line_garbage = None
   \<and> step sample_lib (sample_system 4) (Line line_garbage)
       = Some ((sample_system 4)\<lparr>self := (sample_spout 4)\<lparr>dropped := 1\<rparr>\<rparr>)
   \<and> dropped (handle_lines sample_lib (sample_spout 4) [line_garbage, line_event]) = 1
   \<and> items (queue (handle_lines sample_lib (sample_spout 4) [line_garbage, line_event]))
       = [Parsed val_event]"
proof -
  let ?s1 = "(sample_spout 4)\<lparr>dropped := 1\<rparr>"
  have a: "reader (sample_system 4) = Streaming" by (simp add: sample_system_simps)
  have b: "is_parse (self (sample_system 4)) \<and> json_loads sample_lib line_garbage = None
      \<or> process_line sample_lib (self (sample_system 4)) line_garbage = Inl ValueError"
    by (simp add: sample_system_simps sample_spout_simps loads_garbage)
  note w = malformed_line_contained [OF a b, of "[]" "[line_event]"]
  have st: "step sample_lib (sample_system 4) (Line line_garbage)
      = Some ((sample_system 4)\<lparr>self := ?s1\<rparr>)"
    using w by (simp add: sample_system_simps sample_spout_simps)
  have eq: "handle_lines sample_lib (sample_spout 4) [line_garbage, line_event]
      = handle_line sample_lib ?s1 line_event"
    using w by (simp add: sample_system_simps sample_spout_simps)
  have d: "deliverable sample_lib ?s1 line_event = Some (Parsed val_event)"
    by (rule deliverable_event) (simp add: sample_spout_simps)
  have r: "room (queue ?s1)" using sample_spout_room [of 4] by simp
  have hl: "handle_line sample_lib ?s1 line_event
      = ?s1\<lparr>queue := (queue ?s1)\<lparr>items := items (queue ?s1) @ [Parsed val_event]\<rparr>\<rparr>"
    using d r by (rule handle_line_delivers)
  show ?thesis
    using a st eq hl by (simp add: sample_system_simps sample_spout_simps loads_garbage)
qed

text \<open>
  C10. With parsing enabled, a line that decodes to a dict whose \<open>__trace\<close> is
  \<open>dropped\<close> but whose \<open>n\<close> is missing (\<open>KeyError\<close>) or is not convertible by
  \<open>int\<close> raises inside the inner \<open>try\<close>: the handler adds exactly one to the drop
  counter, nothing is enqueued, and the \<open>for\<close> loop goes on with the next line.
\<close>

theorem trace_without_count_drops_one:
  assumes "is_parse s" and "json_loads L line = Some (PDict kvs)"
    and "map_of kvs ''__trace'' = Some (PStr ''dropped'')"
    and "map_of kvs ''n'' = None \<or> (\<exists>v e. map_of kvs ''n'' = Some v \<and> py_int L v = Inl e)"
  shows "(\<exists>e. process_line L s line = Inl e)
    \<and> handle_line L s line = s\<lparr>dropped := dropped s + 1\<rparr>
    \<and> dropped (handle_line L s line) = dropped s + 1
    \<and> queue (handle_line L s line) = queue s
    \<and> handle_lines L s (line # rest) = handle_lines L (s\<lparr>dropped := dropped s + 1\<rparr>) rest
    \<and> (\<forall>S. reader S = Streaming \<and> self S = s \<longrightarrow>
          step L S (Line line) = Some (S\<lparr>self := s\<lparr>dropped := dropped s + 1\<rparr>\<rparr>))"
proof -
  have "\<exists>e. process_line L s line = Inl e"
    using process_line_trace_dict [OF assms(1-3)] assms(4) by auto
  then obtain e where raised: "process_line L s line = Inl e" ..
  have one: "handle_line L s line = s\<lparr>dropped := dropped s + 1\<rparr>"
    using raised by (rule handle_line_exception)
  have "step L S (Line line) = Some (S\<lparr>self := s\<lparr>dropped := dropped s + 1\<rparr>\<rparr>)"
    if "reader S = Streaming" and "self S = s" for S
    using step_line_exception [of S L line e] that raised by simp
  then show ?thesis using raised one by simp
qed

theorem trace_without_count_drops_one_witness:
  "json_loads sample_lib line_dropped_nokey = Some (PDict [(''__trace'', PStr ''dropped'')])
   \<and> dropped (handle_line sample_lib (sample_spout 4) line_dropped_nokey) = 1
   \<and> items (queue (handle_line sample_lib (sample_spout 4) line_dropped_nokey)) = []
   \<and> step sample_lib (sample_system 4) (Line line_dropped_nokey)
       = Some ((sample_system 4)\<lparr>self := (sample_spout 4)\<lparr>dropped := 1\<rparr>\<rparr>)"
proof -
  have a: "is_parse (sample_spout 4)" by (simp add: sample_spout_simps)
  have b: "map_of [(''__trace'', PStr ''dropped'')] ''__trace'' = Some (PStr ''dropped'')" by simp
  have c: "map_of [(''__trace'', PStr ''dropped'')] ''n'' = None
      \<or> (\<exists>v e. map_of [(''__trace'', PStr ''dropped'')] ''n'' = Some v \<and> py_int sample_lib v = Inl e)"
    by simp
  show ?thesis
    using trace_without_count_drops_one [OF a loads_dropped_nokey b c, of "[]"] loads_dropped_nokey
    by (simp add: sample_spout_simps sample_system_simps)
qed

end
